theory Spec2Isabelle
  imports Complex_Main
begin

section \<open>The host environment\<close>

text \<open>
  Every widget of p5.SimpleUI.js holds a reference \<open>this.p\<close> to the p5 instance and reads
  the pointer position, the last key and the text metrics from it. The record below is
  the part of that instance the modelled methods read. The pixel quantities of the text
  widgets (positions, sizes, widths, the scroll offset) are modelled as reals; the
  numbers of a slider have a model of their own, with NaN and the infinities, below.
  Strings are lists of characters.
\<close>

record p5 =
  mouseX :: real
  mouseY :: real
  keyCode :: nat
  key :: string
  textWidth :: "string \<Rightarrow> real"

text \<open>The key codes are the constants of p5.js.\<close>

definition BACKSPACE :: nat where "BACKSPACE = 8"
definition ENTER :: nat where "ENTER = 13"
definition LEFT_ARROW :: nat where "LEFT_ARROW = 37"
definition UP_ARROW :: nat where "UP_ARROW = 38"
definition RIGHT_ARROW :: nat where "RIGHT_ARROW = 39"
definition DOWN_ARROW :: nat where "DOWN_ARROW = 40"

text \<open>\<open>p.constrain(n, low, high)\<close> is \<open>Math.max(Math.min(n, high), low)\<close> in p5.js.\<close>

definition constrain :: "'a::linorder \<Rightarrow> 'a \<Rightarrow> 'a \<Rightarrow> 'a" where
  "constrain n low high = max (min n high) low"

text \<open>
  A callback slot (\<open>onInput\<close>, \<open>onChange\<close>) is modelled by a flag telling whether a
  callback is registered; a call of the callback is an entry in the list of
  notifications the method returns. \<open>if (this.onInput) this.onInput(v)\<close> is \<open>notify\<close>.
\<close>

definition notify :: "bool \<Rightarrow> 'a \<Rightarrow> 'a list" where
  "notify registered v = (if registered then [v] else [])"

datatype error = TypeError

text \<open>
  Reading \<open>a[i]\<close> past the end of a JavaScript array gives \<open>undefined\<close> (here
  \<open>None\<close>); reading a property of \<open>undefined\<close> throws a TypeError.
\<close>

definition js_index :: "'a list \<Rightarrow> nat \<Rightarrow> 'a option" where
  "js_index xs i = (if i < length xs then Some (xs ! i) else None)"

section \<open>Strings: split and join on the line break\<close>

definition newline :: char where
  "newline = CHR 0x0A"

text \<open>\<open>s.split('\n')\<close>: the pieces between line breaks, one more than there are breaks.\<close>

fun split_nl :: "string \<Rightarrow> string list" where
  "split_nl [] = [[]]"
| "split_nl (c # cs) =
     (if c = newline then [] # split_nl cs
      else (case split_nl cs of [] \<Rightarrow> [[c]] | l # ls \<Rightarrow> (c # l) # ls))"

text \<open>\<open>a.join('\n')\<close>.\<close>

fun join_nl :: "string list \<Rightarrow> string" where
  "join_nl [] = []"
| "join_nl [l] = l"
| "join_nl (l # ls) = l @ newline # join_nl ls"

section \<open>TextArea\<close>

record textarea =
  ta_x :: real
  ta_y :: real
  ta_w :: real
  ta_h :: real
  ta_text :: string
  ta_lines :: "string list"
  ta_isFocused :: bool
  ta_onInput :: bool
  ta_cursorX :: nat
  ta_cursorY :: nat
  ta_scrollY :: real
  ta_lineHeight :: real

text \<open>
  The cursor fields are naturals: the constructor sets them to 0 and every assignment
  in the class is an increment, a decrement guarded by \<open>> 0\<close>, a length, a minimum of
  the old value and a length, or a \<open>constrain\<close> with lower bound 0.
\<close>

definition TextArea :: "real \<Rightarrow> real \<Rightarrow> real \<Rightarrow> real \<Rightarrow> string \<Rightarrow> textarea" where
  "TextArea x y w h defaultText =
     \<lparr>ta_x = x, ta_y = y, ta_w = w, ta_h = h,
      ta_text = defaultText,
      ta_lines = [defaultText],
      ta_isFocused = False,
      ta_onInput = False,
      ta_cursorX = 0,
      ta_cursorY = 0,
      ta_scrollY = 0,
      ta_lineHeight = 20\<rparr>"

definition TextArea_setOnInput :: "bool \<Rightarrow> textarea \<Rightarrow> textarea" where
  "TextArea_setOnInput callback t = t\<lparr>ta_onInput := callback\<rparr>"

definition TextArea_getText :: "textarea \<Rightarrow> string" where
  "TextArea_getText t = ta_text t"

definition TextArea_setText :: "string \<Rightarrow> textarea \<Rightarrow> textarea" where
  "TextArea_setText s t =
     (let ls = split_nl s
      in t\<lparr>ta_text := s,
           ta_lines := ls,
           ta_cursorX := length (ls ! (length ls - 1)),
           ta_cursorY := length ls - 1\<rparr>)"

text \<open>
  The loop of \<open>handleClick\<close>: \<open>while (cursorX < line.length && lineWidth < x)\<close> adds
  the width of the character under the cursor and steps the cursor.
\<close>

function click_loop :: "p5 \<Rightarrow> string \<Rightarrow> real \<Rightarrow> nat \<Rightarrow> real \<Rightarrow> nat" where
  "click_loop p line x cursorX lineWidth =
     (if cursorX < length line \<and> lineWidth < x
      then click_loop p line x (cursorX + 1) (lineWidth + textWidth p [line ! cursorX])
      else cursorX)"
  by pat_completeness auto
termination
  by (relation "measure (\<lambda>(p, line, x, cursorX, lineWidth). length line - cursorX)") auto

declare click_loop.simps [simp del]

text \<open>
  \<open>handleClick\<close>. The quotient by \<open>lineHeight\<close> is the quotient of the reals; the
  constructor sets \<open>lineHeight\<close> to 20 and no method assigns it, and the statements
  below about a click assume it positive.
\<close>

definition TextArea_handleClick :: "p5 \<Rightarrow> textarea \<Rightarrow> error + textarea" where
  "TextArea_handleClick p t =
     (let focused = (mouseX p > ta_x t \<and> mouseX p < ta_x t + ta_w t \<and>
                     mouseY p > ta_y t \<and> mouseY p < ta_y t + ta_h t);
          t1 = t\<lparr>ta_isFocused := focused\<rparr>
      in if focused then
           (let y = \<lfloor>(mouseY p - ta_y t + ta_scrollY t) / ta_lineHeight t\<rfloor>;
                cursorY = nat (constrain y 0 (int (length (ta_lines t)) - 1));
                x = mouseX p - ta_x t - 5
            in case js_index (ta_lines t) cursorY of
                 None \<Rightarrow> Inl TypeError
               | Some line \<Rightarrow>
                   Inr (t1\<lparr>ta_cursorY := cursorY, ta_cursorX := click_loop p line x 0 0\<rparr>))
         else Inr t1)"

text \<open>
  The branches of \<open>handleKeyPress\<close> on the key, in the order of the source. A line read
  through \<open>this.lines[i]\<close> whose length or substring is taken throws when \<open>i\<close> is out
  of range; \<open>substring\<close> clamps its indices, as \<open>take\<close> and \<open>drop\<close> do;
  \<open>splice(i, 0, v)\<close> inserts before index \<open>i\<close> and \<open>splice(i, 1)\<close> removes index \<open>i\<close>.
\<close>

definition key_enter :: "textarea \<Rightarrow> error + textarea" where
  "key_enter t =
     (case js_index (ta_lines t) (ta_cursorY t) of
        None \<Rightarrow> Inl TypeError
      | Some line \<Rightarrow>
          (let rightPart = drop (ta_cursorX t) line;
               ls1 = (ta_lines t)[ta_cursorY t := take (ta_cursorX t) line];
               ls2 = take (ta_cursorY t + 1) ls1 @ [rightPart] @ drop (ta_cursorY t + 1) ls1
           in Inr (t\<lparr>ta_lines := ls2, ta_cursorY := ta_cursorY t + 1, ta_cursorX := 0\<rparr>)))"

definition key_backspace :: "textarea \<Rightarrow> error + textarea" where
  "key_backspace t =
     (if ta_cursorX t > 0 then
        (case js_index (ta_lines t) (ta_cursorY t) of
           None \<Rightarrow> Inl TypeError
         | Some line \<Rightarrow>
             Inr (t\<lparr>ta_lines := (ta_lines t)[ta_cursorY t :=
                                    take (ta_cursorX t - 1) line @ drop (ta_cursorX t) line],
                    ta_cursorX := ta_cursorX t - 1\<rparr>))
      else if ta_cursorY t > 0 then
        (case js_index (ta_lines t) (ta_cursorY t - 1) of
           None \<Rightarrow> Inl TypeError
         | Some prev \<Rightarrow>
             (let cur = (case js_index (ta_lines t) (ta_cursorY t) of
                           None \<Rightarrow> ''undefined'' | Some l \<Rightarrow> l);
                  ls1 = (ta_lines t)[ta_cursorY t - 1 := prev @ cur];
                  ls2 = take (ta_cursorY t) ls1 @ drop (ta_cursorY t + 1) ls1
              in Inr (t\<lparr>ta_cursorX := length prev, ta_lines := ls2,
                        ta_cursorY := ta_cursorY t - 1\<rparr>)))
      else Inr t)"

definition key_left :: "textarea \<Rightarrow> error + textarea" where
  "key_left t =
     (if ta_cursorX t > 0 then Inr (t\<lparr>ta_cursorX := ta_cursorX t - 1\<rparr>)
      else if ta_cursorY t > 0 then
        (case js_index (ta_lines t) (ta_cursorY t - 1) of
           None \<Rightarrow> Inl TypeError
         | Some line \<Rightarrow> Inr (t\<lparr>ta_cursorY := ta_cursorY t - 1, ta_cursorX := length line\<rparr>))
      else Inr t)"

definition key_right :: "textarea \<Rightarrow> error + textarea" where
  "key_right t =
     (case js_index (ta_lines t) (ta_cursorY t) of
        None \<Rightarrow> Inl TypeError
      | Some line \<Rightarrow>
          (if ta_cursorX t < length line then Inr (t\<lparr>ta_cursorX := ta_cursorX t + 1\<rparr>)
           else if ta_cursorY t < length (ta_lines t) - 1
           then Inr (t\<lparr>ta_cursorY := ta_cursorY t + 1, ta_cursorX := 0\<rparr>)
           else Inr t))"

definition key_up :: "textarea \<Rightarrow> error + textarea" where
  "key_up t =
     (if ta_cursorY t > 0 then
        (case js_index (ta_lines t) (ta_cursorY t - 1) of
           None \<Rightarrow> Inl TypeError
         | Some line \<Rightarrow>
             Inr (t\<lparr>ta_cursorY := ta_cursorY t - 1,
                    ta_cursorX := min (ta_cursorX t) (length line)\<rparr>))
      else Inr t)"

definition key_down :: "textarea \<Rightarrow> error + textarea" where
  "key_down t =
     (if ta_cursorY t < length (ta_lines t) - 1 then
        (case js_index (ta_lines t) (ta_cursorY t + 1) of
           None \<Rightarrow> Inl TypeError
         | Some line \<Rightarrow>
             Inr (t\<lparr>ta_cursorY := ta_cursorY t + 1,
                    ta_cursorX := min (ta_cursorX t) (length line)\<rparr>))
      else Inr t)"

definition key_char :: "string \<Rightarrow> textarea \<Rightarrow> error + textarea" where
  "key_char k t =
     (case js_index (ta_lines t) (ta_cursorY t) of
        None \<Rightarrow> Inl TypeError
      | Some line \<Rightarrow>
          Inr (t\<lparr>ta_lines := (ta_lines t)[ta_cursorY t :=
                                 take (ta_cursorX t) line @ k @ drop (ta_cursorX t) line],
                 ta_cursorX := ta_cursorX t + 1\<rparr>))"

definition key_edit :: "p5 \<Rightarrow> textarea \<Rightarrow> error + textarea" where
  "key_edit p t =
     (if keyCode p = ENTER then key_enter t
      else if keyCode p = BACKSPACE then key_backspace t
      else if keyCode p = LEFT_ARROW then key_left t
      else if keyCode p = RIGHT_ARROW then key_right t
      else if keyCode p = UP_ARROW then key_up t
      else if keyCode p = DOWN_ARROW then key_down t
      else if length (key p) = 1 then key_char (key p) t
      else Inr t)"

text \<open>The block under the comment \<open>// Update scroll position\<close>.\<close>

definition scroll_update :: "textarea \<Rightarrow> textarea" where
  "scroll_update t =
     (if real (ta_cursorY t) * ta_lineHeight t < ta_scrollY t
      then t\<lparr>ta_scrollY := real (ta_cursorY t) * ta_lineHeight t\<rparr>
      else if (real (ta_cursorY t) + 1) * ta_lineHeight t > ta_scrollY t + ta_h t
      then t\<lparr>ta_scrollY := (real (ta_cursorY t) + 1) * ta_lineHeight t - ta_h t\<rparr>
      else t)"

text \<open>
  \<open>handleKeyPress\<close> returns the new state and the notifications it fired. An unfocused
  text area returns at once.
\<close>

definition TextArea_handleKeyPress :: "p5 \<Rightarrow> textarea \<Rightarrow> error + textarea \<times> string list" where
  "TextArea_handleKeyPress p t =
     (if \<not> ta_isFocused t then Inr (t, [])
      else
        (case key_edit p t of
           Inl e \<Rightarrow> Inl e
         | Inr t1 \<Rightarrow>
             (let t2 = scroll_update t1;
                  t3 = t2\<lparr>ta_text := join_nl (ta_lines t2)\<rparr>
              in Inr (t3, notify (ta_onInput t3) (ta_text t3)))))"

text \<open>
  The cursor invariant of the data model: there is a line, the cursor row is a row of
  \<open>lines\<close> and the cursor column is a position in that row (its end included).
\<close>

definition ta_valid :: "textarea \<Rightarrow> bool" where
  "ta_valid t =
     (ta_lines t \<noteq> [] \<and> ta_cursorY t < length (ta_lines t) \<and>
      ta_cursorX t \<le> length (ta_lines t ! ta_cursorY t))"

text \<open>
  The calls a host makes on a text area, and a run of them; a TypeError ends the run,
  as the uncaught exception would.
\<close>

datatype ta_event = KeyPress p5 | Click p5 | SetText string

fun ta_apply :: "ta_event \<Rightarrow> textarea \<Rightarrow> error + textarea" where
  "ta_apply (KeyPress p) t =
     (case TextArea_handleKeyPress p t of Inl e \<Rightarrow> Inl e | Inr (t', ns) \<Rightarrow> Inr t')"
| "ta_apply (Click p) t = TextArea_handleClick p t"
| "ta_apply (SetText s) t = Inr (TextArea_setText s t)"

fun ta_run :: "ta_event list \<Rightarrow> textarea \<Rightarrow> error + textarea" where
  "ta_run [] t = Inr t"
| "ta_run (e # es) t = (case ta_apply e t of Inl err \<Rightarrow> Inl err | Inr t' \<Rightarrow> ta_run es t')"

text \<open>The width of the first \<open>k\<close> characters of a line, each measured on its own.\<close>

definition prefix_width :: "p5 \<Rightarrow> string \<Rightarrow> nat \<Rightarrow> real" where
  "prefix_width p line k = (\<Sum>c\<leftarrow>take k line. textWidth p [c])"

section \<open>InputBox\<close>

record inputbox =
  ib_x :: real
  ib_y :: real
  ib_w :: real
  ib_h :: real
  ib_text :: string
  ib_isFocused :: bool
  ib_onInput :: bool
  ib_cursorVisible :: bool
  ib_lastBlink :: real
  ib_blinkInterval :: real

definition InputBox :: "real \<Rightarrow> real \<Rightarrow> real \<Rightarrow> real \<Rightarrow> string \<Rightarrow> inputbox" where
  "InputBox x y w h defaultText =
     \<lparr>ib_x = x, ib_y = y, ib_w = w, ib_h = h,
      ib_text = defaultText,
      ib_isFocused = False,
      ib_onInput = False,
      ib_cursorVisible = True,
      ib_lastBlink = 0,
      ib_blinkInterval = 500\<rparr>"

definition InputBox_handleClick :: "p5 \<Rightarrow> inputbox \<Rightarrow> inputbox" where
  "InputBox_handleClick p b =
     b\<lparr>ib_isFocused := (mouseX p > ib_x b \<and> mouseX p < ib_x b + ib_w b \<and>
                        mouseY p > ib_y b \<and> mouseY p < ib_y b + ib_h b)\<rparr>"

text \<open>\<open>text.slice(0, -1)\<close> is the text without its last character.\<close>

definition InputBox_handleKeyPress :: "p5 \<Rightarrow> inputbox \<Rightarrow> inputbox \<times> string list" where
  "InputBox_handleKeyPress p b =
     (if \<not> ib_isFocused b then (b, [])
      else
        (let b1 = (if keyCode p = BACKSPACE then
                     (if length (ib_text b) > 0 then b\<lparr>ib_text := butlast (ib_text b)\<rparr> else b)
                   else if keyCode p = ENTER then b\<lparr>ib_isFocused := False\<rparr>
                   else if length (key p) = 1 then b\<lparr>ib_text := ib_text b @ key p\<rparr>
                   else b)
         in (b1, notify (ib_onInput b1) (ib_text b1))))"

section \<open>Slider\<close>

text \<open>
  A JavaScript number is NaN, an infinity or a finite value; \<open>Fin x\<close> is the finite
  value \<open>x\<close>. The finite values of the engine are the binary64 ones; the model lets \<open>x\<close>
  be any real and does not tell the two zeros apart. \<open>num_less\<close> is \<open><\<close> and \<open>num_le\<close>
  is \<open><=\<close>: a comparison with NaN is false.
\<close>

datatype jsnum = NaN | NegInf | Fin real | PosInf

fun num_less :: "jsnum \<Rightarrow> jsnum \<Rightarrow> bool" where
  "num_less NaN b = False"
| "num_less a NaN = False"
| "num_less PosInf b = False"
| "num_less a NegInf = False"
| "num_less NegInf b = True"
| "num_less a PosInf = True"
| "num_less (Fin x) (Fin y) = (x < y)"

definition num_le :: "jsnum \<Rightarrow> jsnum \<Rightarrow> bool" where
  "num_le a b = (a \<noteq> NaN \<and> b \<noteq> NaN \<and> \<not> num_less b a)"

text \<open>\<open>Math.min\<close> and \<open>Math.max\<close> give NaN as soon as an argument is NaN.\<close>

definition Math_min :: "jsnum \<Rightarrow> jsnum \<Rightarrow> jsnum" where
  "Math_min a b = (if a = NaN \<or> b = NaN then NaN else if num_less b a then b else a)"

definition Math_max :: "jsnum \<Rightarrow> jsnum \<Rightarrow> jsnum" where
  "Math_max a b = (if a = NaN \<or> b = NaN then NaN else if num_less a b then b else a)"

text \<open>\<open>p.constrain(n, low, high)\<close> on numbers: \<open>Math.max(Math.min(n, high), low)\<close>.\<close>

definition constrain_num :: "jsnum \<Rightarrow> jsnum \<Rightarrow> jsnum \<Rightarrow> jsnum" where
  "constrain_num n low high = Math_max (Math_min n high) low"

text \<open>
  \<open>Math.round\<close> gives the integer nearest to a finite value, a tie towards plus
  infinity (an exact result: that integer is a binary64 value), and leaves NaN and the
  infinities as they are.
\<close>

fun Math_round :: "jsnum \<Rightarrow> jsnum" where
  "Math_round (Fin x) = Fin (of_int \<lfloor>x + 1 / 2\<rfloor>)"
| "Math_round a = a"

text \<open>The truth value of a number in a condition: false for zero and NaN.\<close>

fun truthy :: "jsnum \<Rightarrow> bool" where
  "truthy NaN = False"
| "truthy (Fin x) = (x \<noteq> 0)"
| "truthy a = True"

text \<open>
  The difference, product and quotient of two numbers as the engine computes them,
  rounding included. They are parameters of the model: a statement that holds for every
  \<open>arith\<close> holds for binary64.
\<close>

record arith =
  fsub :: "jsnum \<Rightarrow> jsnum \<Rightarrow> jsnum"
  fmul :: "jsnum \<Rightarrow> jsnum \<Rightarrow> jsnum"
  fdiv :: "jsnum \<Rightarrow> jsnum \<Rightarrow> jsnum"

text \<open>The fields of a slider that \<open>setValue\<close> and \<open>getValue\<close> read or write.\<close>

record slider =
  sl_min :: jsnum
  sl_max :: jsnum
  sl_isInteger :: bool
  sl_step :: jsnum
  sl_value :: jsnum
  sl_onChange :: bool

text \<open>
  The constructor: \<open>step || (isInteger ? 1 : (max - min) / 100)\<close> takes the default
  when the argument is \<open>null\<close> (here \<open>None\<close>), zero or NaN.
\<close>

definition Slider ::
  "arith \<Rightarrow> jsnum \<Rightarrow> jsnum \<Rightarrow> jsnum \<Rightarrow> bool \<Rightarrow> jsnum option \<Rightarrow> slider" where
  "Slider ar minv maxv defaultValue isInteger step =
     \<lparr>sl_min = minv, sl_max = maxv,
      sl_isInteger = isInteger,
      sl_step = (let d = (if isInteger then Fin 1 else fdiv ar (fsub ar maxv minv) (Fin 100))
                 in case step of None \<Rightarrow> d | Some st \<Rightarrow> if truthy st then st else d),
      sl_value = (if isInteger then Math_round defaultValue else defaultValue),
      sl_onChange = False\<rparr>"

definition Slider_setOnChange :: "bool \<Rightarrow> slider \<Rightarrow> slider" where
  "Slider_setOnChange callback s = s\<lparr>sl_onChange := callback\<rparr>"

definition Slider_getValue :: "slider \<Rightarrow> jsnum" where
  "Slider_getValue s = sl_value s"

definition Slider_setValue :: "arith \<Rightarrow> jsnum \<Rightarrow> slider \<Rightarrow> slider \<times> jsnum list" where
  "Slider_setValue ar v s =
     (let v1 = (if sl_isInteger s then Math_round v
                else if truthy (sl_step s)
                then fmul ar (Math_round (fdiv ar v (sl_step s))) (sl_step s)
                else v);
          s1 = s\<lparr>sl_value := constrain_num v1 (sl_min s) (sl_max s)\<rparr>
      in (s1, notify (sl_onChange s1) (sl_value s1)))"

section \<open>Auxiliary notions for the statements\<close>

text \<open>The fields a key branch leaves alone.\<close>

definition same_frame :: "textarea \<Rightarrow> textarea \<Rightarrow> bool" where
  "same_frame t t' =
     (ta_x t' = ta_x t \<and> ta_y t' = ta_y t \<and> ta_w t' = ta_w t \<and> ta_h t' = ta_h t \<and>
      ta_isFocused t' = ta_isFocused t \<and> ta_onInput t' = ta_onInput t \<and>
      ta_scrollY t' = ta_scrollY t \<and> ta_lineHeight t' = ta_lineHeight t)"

section \<open>Concrete hosts and widgets\<close>

text \<open>
  A host whose font gives every character a width of 10 pixels, a pointer position on
  it and a key event on it.
\<close>

definition ex_host :: p5 where
  "ex_host = \<lparr>mouseX = 0, mouseY = 0, keyCode = 0, key = [],
              textWidth = (\<lambda>s. 10 * real (length s))\<rparr>"

definition pointer_at :: "real \<Rightarrow> real \<Rightarrow> p5" where
  "pointer_at mx my = ex_host\<lparr>mouseX := mx, mouseY := my\<rparr>"

definition key_event :: "nat \<Rightarrow> string \<Rightarrow> p5" where
  "key_event code k = ex_host\<lparr>keyCode := code, key := k\<rparr>"

text \<open>A text area of 100 by 100 pixels at the origin with the text \<open>ab\<close> and a callback.\<close>

definition ex_area_ab :: textarea where
  "ex_area_ab = TextArea_setOnInput True (TextArea 0 0 100 100 ''ab'')"

text \<open>The same area with the text \<open>hi\<close> and no callback.\<close>

definition ex_area_hi :: textarea where
  "ex_area_hi = TextArea 0 0 100 100 ''hi''"

text \<open>The focused area with the lines \<open>ab\<close> and \<open>cd\<close> and the cursor at row 1, column 0.\<close>

definition ex_area_abcd :: textarea where
  "ex_area_abcd =
     (TextArea 0 0 100 100 [])\<lparr>ta_text := ''ab'' @ newline # ''cd'', ta_lines := [''ab'', ''cd''],
                               ta_isFocused := True, ta_cursorY := 1\<rparr>"

text \<open>
  An area 30 pixels high, and the state it is in after a click at (50, 5) and the Enter
  key: two empty lines, the cursor on the second, scrolled by 10 pixels.
\<close>

definition ex_area_low :: textarea where
  "ex_area_low = TextArea 0 0 100 30 []"

definition ex_area_low_entered :: textarea where
  "ex_area_low_entered =
     ex_area_low\<lparr>ta_text := [newline], ta_lines := [[], []], ta_isFocused := True,
                 ta_cursorY := 1, ta_scrollY := 10\<rparr>"

definition ex_box :: inputbox where
  "ex_box = InputBox 0 0 100 20 ''hi''"

text \<open>
  The binary64 values of the literals \<open>0.35\<close> and \<open>0.1\<close>, and an arithmetic for the
  concrete sliders: exact on finite operands, which is the binary64 result wherever the
  statements below apply it to values other than these two, and with the binary64
  results \<open>3.4999999999999996\<close> of \<open>0.35 / 0.1\<close> and \<open>0.30000000000000004\<close> of \<open>3 * 0.1\<close>.
  On an operand that is not finite, and on a zero divisor, it gives NaN; no statement
  below applies it there.
\<close>

definition d035 :: real where
  "d035 = 3152519739159347 / 9007199254740992"

definition d01 :: real where
  "d01 = 3602879701896397 / 36028797018963968"

definition binary64_sample :: arith where
  "binary64_sample =
     \<lparr>fsub = (\<lambda>a b. case (a, b) of (Fin x, Fin y) \<Rightarrow> Fin (x - y) | _ \<Rightarrow> NaN),
      fmul = (\<lambda>a b. case (a, b) of
                (Fin x, Fin y) \<Rightarrow>
                  if x = 3 \<and> y = d01 then Fin (1351079888211149 / 4503599627370496)
                  else Fin (x * y)
              | _ \<Rightarrow> NaN),
      fdiv = (\<lambda>a b. case (a, b) of
                (Fin x, Fin y) \<Rightarrow>
                  if x = d035 \<and> y = d01 then Fin (7881299347898367 / 2251799813685248)
                  else if y \<noteq> 0 then Fin (x / y) else NaN
              | _ \<Rightarrow> NaN)\<rparr>"

text \<open>
  The sliders \<open>new Slider(p, 0, 0, 100, 0, 10, 5, false, 0.5)\<close>,
  \<open>new Slider(p, 0, 0, 100, 0, 10, 5, true)\<close>, \<open>new Slider(p, 0, 0, 100, 10, 0, 5, true)\<close>
  (its minimum above its maximum) and \<open>new Slider(p, 0, 0, 100, 0, 1, 0.5, false, 0.1)\<close>.
\<close>

definition ex_slider :: slider where
  "ex_slider = Slider binary64_sample (Fin 0) (Fin 10) (Fin 5) False (Some (Fin (1 / 2)))"

definition ex_slider_int :: slider where
  "ex_slider_int = Slider binary64_sample (Fin 0) (Fin 10) (Fin 5) True None"

definition ex_slider_reversed :: slider where
  "ex_slider_reversed = Slider binary64_sample (Fin 10) (Fin 0) (Fin 5) True None"

definition ex_slider_tenths :: slider where
  "ex_slider_tenths =
     Slider binary64_sample (Fin 0) (Fin 1) (Fin (1 / 2)) False (Some (Fin d01))"

section \<open>Split and join\<close>

lemma split_nl_not_Nil: "split_nl s \<noteq> []"
  by (induction s) (auto split: list.splits)

lemma join_nl_Cons: "ls \<noteq> [] \<Longrightarrow> join_nl (l # ls) = l @ newline # join_nl ls"
  by (cases ls) simp_all

lemma join_nl_Cons_char: "join_nl ((c # l) # ls) = c # join_nl (l # ls)"
  by (cases ls) simp_all

lemma join_split_nl: "join_nl (split_nl s) = s"
proof (induction s)
  case Nil
  show ?case by simp
next
  case (Cons c cs)
  show ?case
  proof (cases "c = newline")
    case True
    with Cons show ?thesis by (simp add: join_nl_Cons split_nl_not_Nil)
  next
    case False
    obtain l ls where sp: "split_nl cs = l # ls"
      using split_nl_not_Nil [of cs] by (cases "split_nl cs") auto
    with False Cons show ?thesis by (simp add: join_nl_Cons_char)
  qed
qed

section \<open>Construction, setText and getText\<close>

text \<open>
  Claim C6. For every string \<open>s\<close>, \<open>setText(s)\<close> followed by \<open>getText()\<close> returns \<open>s\<close>;
  the lines are \<open>s\<close> split on line breaks and joining them gives \<open>s\<close> back; the cursor
  is on the last row, at the end of the last line.
\<close>

theorem setText_getText_roundtrip:
  "TextArea_getText (TextArea_setText s t) = s \<and>
   ta_lines (TextArea_setText s t) = split_nl s \<and>
   join_nl (ta_lines (TextArea_setText s t)) = s \<and>
   ta_cursorY (TextArea_setText s t) = length (split_nl s) - 1 \<and>
   ta_cursorX (TextArea_setText s t) = length (last (split_nl s))"
  by (simp add: TextArea_getText_def TextArea_setText_def Let_def join_split_nl
      last_conv_nth split_nl_not_Nil)

text \<open>
  Claim C4. The constructor stores the initial text as one line, line breaks included:
  for the initial text \<open>a\<close>, line break, \<open>b\<close> the lines are that one string, whereas
  the split on line breaks (which \<open>setText\<close> takes) has the two lines \<open>a\<close> and \<open>b\<close>.
\<close>

theorem constructor_keeps_line_breaks:
  "ta_lines (TextArea 0 0 100 100 [CHR ''a'', newline, CHR ''b'']) =
     [[CHR ''a'', newline, CHR ''b'']] \<and>
   split_nl [CHR ''a'', newline, CHR ''b''] = [''a'', ''b''] \<and>
   ta_lines (TextArea_setText [CHR ''a'', newline, CHR ''b''] (TextArea 0 0 100 100 [])) =
     [''a'', ''b'']"
  by (simp add: TextArea_def TextArea_setText_def newline_def)

section \<open>The key branches keep the cursor invariant\<close>

lemma key_enter_valid:
  "ta_valid t \<Longrightarrow> \<exists>t1. key_enter t = Inr t1 \<and> ta_valid t1 \<and> same_frame t t1"
  by (auto simp: key_enter_def ta_valid_def same_frame_def js_index_def Let_def nth_append)

lemma key_backspace_valid:
  "ta_valid t \<Longrightarrow> \<exists>t1. key_backspace t = Inr t1 \<and> ta_valid t1 \<and> same_frame t t1"
  by (auto simp: key_backspace_def ta_valid_def same_frame_def js_index_def Let_def nth_append)

lemma key_left_valid:
  "ta_valid t \<Longrightarrow> \<exists>t1. key_left t = Inr t1 \<and> ta_valid t1 \<and> same_frame t t1"
  by (auto simp: key_left_def ta_valid_def same_frame_def js_index_def Let_def)

lemma key_right_valid:
  "ta_valid t \<Longrightarrow> \<exists>t1. key_right t = Inr t1 \<and> ta_valid t1 \<and> same_frame t t1"
  by (auto simp: key_right_def ta_valid_def same_frame_def js_index_def Let_def)

lemma key_up_valid:
  "ta_valid t \<Longrightarrow> \<exists>t1. key_up t = Inr t1 \<and> ta_valid t1 \<and> same_frame t t1"
  by (auto simp: key_up_def ta_valid_def same_frame_def js_index_def Let_def)

lemma key_down_valid:
  "ta_valid t \<Longrightarrow> \<exists>t1. key_down t = Inr t1 \<and> ta_valid t1 \<and> same_frame t t1"
  by (auto simp: key_down_def ta_valid_def same_frame_def js_index_def Let_def)

lemma key_char_valid:
  "ta_valid t \<Longrightarrow> length k = 1 \<Longrightarrow> \<exists>t1. key_char k t = Inr t1 \<and> ta_valid t1 \<and> same_frame t t1"
  by (auto simp: key_char_def ta_valid_def same_frame_def js_index_def Let_def)

lemma key_edit_valid:
  "ta_valid t \<Longrightarrow> \<exists>t1. key_edit p t = Inr t1 \<and> ta_valid t1 \<and> same_frame t t1"
  unfolding key_edit_def
  using key_enter_valid key_backspace_valid key_left_valid key_right_valid key_up_valid
    key_down_valid key_char_valid
  by (auto simp: same_frame_def)

section \<open>Evaluation of the concrete cases\<close>

lemmas ex_defs = ex_host_def pointer_at_def key_event_def
  TextArea_def TextArea_setOnInput_def TextArea_setText_def

lemmas key_defs = key_edit_def key_enter_def key_backspace_def key_left_def key_right_def
  key_up_def key_down_def key_char_def ENTER_def BACKSPACE_def LEFT_ARROW_def RIGHT_ARROW_def
  UP_ARROW_def DOWN_ARROW_def

lemmas run_defs = TextArea_handleKeyPress_def TextArea_handleClick_def scroll_update_def
  notify_def constrain_def js_index_def Let_def

lemma key_codes_distinct:
  "ENTER \<noteq> BACKSPACE" "BACKSPACE \<noteq> ENTER"
  by (simp_all add: ENTER_def BACKSPACE_def)

section \<open>handleKeyPress: scroll update and notification\<close>

lemma scroll_update_fields:
  "ta_lines (scroll_update t) = ta_lines t"
  "ta_cursorX (scroll_update t) = ta_cursorX t"
  "ta_cursorY (scroll_update t) = ta_cursorY t"
  "ta_onInput (scroll_update t) = ta_onInput t"
  "ta_isFocused (scroll_update t) = ta_isFocused t"
  "ta_lineHeight (scroll_update t) = ta_lineHeight t"
  "ta_h (scroll_update t) = ta_h t"
  by (simp_all add: scroll_update_def)

lemma scroll_update_scrollY:
  "ta_scrollY (scroll_update t) =
     (if real (ta_cursorY t) * ta_lineHeight t < ta_scrollY t
      then real (ta_cursorY t) * ta_lineHeight t
      else if (real (ta_cursorY t) + 1) * ta_lineHeight t > ta_scrollY t + ta_h t
      then (real (ta_cursorY t) + 1) * ta_lineHeight t - ta_h t
      else ta_scrollY t)"
  by (simp add: scroll_update_def)

lemma scroll_update_nonneg:
  "0 \<le> ta_scrollY t \<Longrightarrow> 0 \<le> ta_lineHeight t \<Longrightarrow> 0 \<le> ta_scrollY (scroll_update t)"
  by (auto simp: scroll_update_def)

lemma handleKeyPress_focused:
  assumes "ta_isFocused t" and "key_edit p t = Inr t1"
  shows "TextArea_handleKeyPress p t =
           Inr ((scroll_update t1)\<lparr>ta_text := join_nl (ta_lines t1)\<rparr>,
                notify (ta_onInput t1) (join_nl (ta_lines t1)))"
  using assms by (simp add: TextArea_handleKeyPress_def Let_def scroll_update_fields)

text \<open>
  What a focused key press fires. On a text area within its cursor invariant the call
  never throws; with a callback registered it fires one notification, which carries
  the join of the lines as the key branch left them (also the stored text), and with
  no callback, or without focus, it fires none. So a key that changes the text is
  followed by exactly one notification with the full joined text.
\<close>

lemma handleKeyPress_notification:
  assumes "ta_valid t"
  shows "if ta_isFocused t
         then (\<exists>t1 t'. key_edit p t = Inr t1 \<and>
                 TextArea_handleKeyPress p t =
                   Inr (t', if ta_onInput t then [join_nl (ta_lines t1)] else []) \<and>
                 ta_lines t' = ta_lines t1 \<and> ta_text t' = join_nl (ta_lines t1))
         else TextArea_handleKeyPress p t = Inr (t, [])"
proof (cases "ta_isFocused t")
  case False
  then show ?thesis by (simp add: TextArea_handleKeyPress_def)
next
  case True
  from key_edit_valid [OF assms] obtain t1 where
    e: "key_edit p t = Inr t1" and f: "same_frame t t1" by blast
  from f have "ta_onInput t1 = ta_onInput t" by (simp add: same_frame_def)
  with True e handleKeyPress_focused [OF True e] show ?thesis
    by (simp add: notify_def scroll_update_fields)
qed

text \<open>
  Claim C1. The claim gives a pure cursor-navigation key no notification, as the
  documentation of \<open>setOnInput\<close> does (the callback is the function to call when the
  content changes). The code notifies all the same: on the area \<open>ab\<close> with a callback,
  focused by a click at (50, 10) that puts the cursor at column 2, the left arrow moves
  the cursor to column 1, leaves the text \<open>ab\<close> as it is, and fires a notification.
\<close>

theorem navigation_key_notifies:
  "TextArea_handleClick (pointer_at 50 10) ex_area_ab =
     Inr (ex_area_ab\<lparr>ta_isFocused := True, ta_cursorX := 2\<rparr>) \<and>
   ta_text (ex_area_ab\<lparr>ta_isFocused := True, ta_cursorX := 2\<rparr>) = ''ab'' \<and>
   TextArea_handleKeyPress (key_event LEFT_ARROW ''ArrowLeft'')
       (ex_area_ab\<lparr>ta_isFocused := True, ta_cursorX := 2\<rparr>) =
     Inr (ex_area_ab\<lparr>ta_isFocused := True, ta_cursorX := 1\<rparr>, [''ab'']) \<and>
   ta_text (ex_area_ab\<lparr>ta_isFocused := True, ta_cursorX := 1\<rparr>) = ''ab''"
  by (simp add: ex_defs ex_area_ab_def key_defs run_defs click_loop.simps)

section \<open>Backspace\<close>




text \<open>
  Claim C7. On a focused text area with the cursor at column 0 of a row after the
  first (and within the lines), Backspace appends the current line to the previous one,
  removes the current line and puts the cursor on the previous row at the former end
  of that line.
\<close>

theorem backspace_joins_lines:
  assumes "ta_isFocused t" and "keyCode p = BACKSPACE"
    and "ta_cursorX t = 0" and "0 < ta_cursorY t" and "ta_cursorY t < length (ta_lines t)"
  shows "\<exists>t' ns. TextArea_handleKeyPress p t = Inr (t', ns) \<and>
           ta_lines t' =
             take (ta_cursorY t - 1) (ta_lines t) @
             [ta_lines t ! (ta_cursorY t - 1) @ ta_lines t ! ta_cursorY t] @
             drop (ta_cursorY t + 1) (ta_lines t) \<and>
           ta_cursorY t' = ta_cursorY t - 1 \<and>
           ta_cursorX t' = length (ta_lines t ! (ta_cursorY t - 1))"
proof -
  let ?ls = "ta_lines t" and ?cy = "ta_cursorY t"
  let ?ls1 = "?ls[?cy - 1 := ?ls ! (?cy - 1) @ ?ls ! ?cy]"
  have l: "take ?cy ?ls1 @ drop (?cy + 1) ?ls1 =
           take (?cy - 1) ?ls @ [?ls ! (?cy - 1) @ ?ls ! ?cy] @ drop (?cy + 1) ?ls"
  proof -
    obtain n where n: "?cy = Suc n" using assms(4) by (cases "?cy") auto
    have "n < length ?ls" using assms(5) n by simp
    then have "take (Suc n) (?ls[n := ?ls ! n @ ?ls ! Suc n]) =
               take n ?ls @ [?ls ! n @ ?ls ! Suc n]"
      by (simp add: take_Suc_conv_app_nth)
    then show ?thesis using n by simp
  qed
  have e: "key_edit p t =
             Inr (t\<lparr>ta_cursorX := length (?ls ! (?cy - 1)),
                    ta_lines := take ?cy ?ls1 @ drop (?cy + 1) ?ls1,
                    ta_cursorY := ?cy - 1\<rparr>)"
    using assms by (simp add: key_edit_def key_backspace_def key_codes_distinct js_index_def Let_def)
  show ?thesis
    using handleKeyPress_focused [OF assms(1) e] l
    by (simp add: scroll_update_fields)
qed

text \<open>
  The scenario of the claim: from the lines \<open>ab\<close>, \<open>cd\<close> with the cursor at (1, 0) the
  result has the one line \<open>abcd\<close> and the cursor at (0, 2).
\<close>

theorem backspace_joins_lines_witness:
  "ta_isFocused ex_area_abcd \<and> keyCode (key_event BACKSPACE ''Backspace'') = BACKSPACE \<and>
   ta_lines ex_area_abcd = [''ab'', ''cd''] \<and>
   ta_cursorX ex_area_abcd = 0 \<and> 0 < ta_cursorY ex_area_abcd \<and>
   ta_cursorY ex_area_abcd = 1 \<and>
   ta_cursorY ex_area_abcd < length (ta_lines ex_area_abcd) \<and>
   (\<exists>t' ns. TextArea_handleKeyPress (key_event BACKSPACE ''Backspace'') ex_area_abcd = Inr (t', ns) \<and>
      ta_lines t' = [''abcd''] \<and> ta_cursorY t' = 0 \<and> ta_cursorX t' = 2)"
  using backspace_joins_lines [of ex_area_abcd "key_event BACKSPACE ''Backspace''"]
  by (simp add: ex_defs ex_area_abcd_def numeral_2_eq_2)

text \<open>
  The state of that scenario is the one a host reaches from a constructed text area by
  \<open>setText\<close> with the two lines and a click at (3, 30), left of the text on row 1.
\<close>

lemma ex_area_abcd_reached:
  "ta_run [SetText (''ab'' @ newline # ''cd''), Click (pointer_at 3 30)] (TextArea 0 0 100 100 []) =
     Inr ex_area_abcd"
  by (simp add: ex_defs ex_area_abcd_def run_defs click_loop.simps newline_def)

section \<open>handleClick\<close>

lemma click_loop_le:
  "cursorX \<le> length line \<Longrightarrow> click_loop p line x cursorX lineWidth \<le> length line"
proof (induction p line x cursorX lineWidth rule: click_loop.induct)
  case (1 p line x cursorX lineWidth)
  show ?case
  proof (cases "cursorX < length line \<and> lineWidth < x")
    case True
    then have "click_loop p line x (cursorX + 1) (lineWidth + textWidth p [line ! cursorX])
                 \<le> length line"
      using "1.IH" by simp
    with True show ?thesis by (subst click_loop.simps) simp
  next
    case False
    with "1.prems" show ?thesis by (subst click_loop.simps) auto
  qed
qed

lemma click_row_less:
  "ls \<noteq> [] \<Longrightarrow> nat (constrain y 0 (int (length ls) - 1)) < length ls"
  by (cases ls) (auto simp: constrain_def)

lemma handleClick_focused:
  assumes "mouseX p > ta_x t" "mouseX p < ta_x t + ta_w t"
    "mouseY p > ta_y t" "mouseY p < ta_y t + ta_h t" "ta_lines t \<noteq> []"
  shows "TextArea_handleClick p t =
     Inr (t\<lparr>ta_isFocused := True,
            ta_cursorY := nat (constrain \<lfloor>(mouseY p - ta_y t + ta_scrollY t) / ta_lineHeight t\<rfloor>
                                0 (int (length (ta_lines t)) - 1)),
            ta_cursorX := click_loop p
               (ta_lines t ! nat (constrain \<lfloor>(mouseY p - ta_y t + ta_scrollY t) / ta_lineHeight t\<rfloor>
                                0 (int (length (ta_lines t)) - 1)))
               (mouseX p - ta_x t - 5) 0 0\<rparr>)"
  using assms click_row_less [OF assms(5)]
  by (simp add: TextArea_handleClick_def Let_def js_index_def)

lemma handleClick_unfocused:
  assumes "\<not> (mouseX p > ta_x t \<and> mouseX p < ta_x t + ta_w t \<and>
              mouseY p > ta_y t \<and> mouseY p < ta_y t + ta_h t)"
  shows "TextArea_handleClick p t = Inr (t\<lparr>ta_isFocused := False\<rparr>)"
  using assms unfolding TextArea_handleClick_def Let_def by auto

lemma handleClick_valid:
  assumes "ta_valid t"
  shows "\<exists>t'. TextArea_handleClick p t = Inr t' \<and> ta_valid t' \<and>
              ta_lines t' = ta_lines t \<and>
              ta_scrollY t' = ta_scrollY t \<and> ta_lineHeight t' = ta_lineHeight t"
proof (cases "mouseX p > ta_x t \<and> mouseX p < ta_x t + ta_w t \<and>
              mouseY p > ta_y t \<and> mouseY p < ta_y t + ta_h t")
  case False
  from handleClick_unfocused [OF False] assms show ?thesis by (simp add: ta_valid_def)
next
  case True
  from assms have ne: "ta_lines t \<noteq> []" by (simp add: ta_valid_def)
  from True have h: "mouseX p > ta_x t" "mouseX p < ta_x t + ta_w t"
    "mouseY p > ta_y t" "mouseY p < ta_y t + ta_h t" by simp_all
  show ?thesis
    using handleClick_focused [OF h ne] click_row_less [OF ne] ne
    by (simp add: ta_valid_def click_loop_le)
qed

lemma prefix_width_Suc:
  "k < length line \<Longrightarrow>
   prefix_width p line (Suc k) = prefix_width p line k + textWidth p [line ! k]"
  by (simp add: prefix_width_def take_Suc_conv_app_nth)

text \<open>
  The loop stops at the first column whose prefix is at least as wide as the target,
  or at the end of the line.
\<close>

lemma click_loop_first_boundary:
  assumes "cursorX \<le> length line" and "lineWidth = prefix_width p line cursorX"
    and "\<forall>k<cursorX. prefix_width p line k < x"
  shows "click_loop p line x cursorX lineWidth \<le> length line \<and>
         (\<forall>k<click_loop p line x cursorX lineWidth. prefix_width p line k < x) \<and>
         (click_loop p line x cursorX lineWidth < length line \<longrightarrow>
            x \<le> prefix_width p line (click_loop p line x cursorX lineWidth))"
  using assms
proof (induction p line x cursorX lineWidth rule: click_loop.induct)
  case (1 p line x cursorX lineWidth)
  show ?case
  proof (cases "cursorX < length line \<and> lineWidth < x")
    case True
    have a: "cursorX + 1 \<le> length line" using True by simp
    have b: "lineWidth + textWidth p [line ! cursorX] = prefix_width p line (cursorX + 1)"
      using True "1.prems"(2) by (simp add: prefix_width_Suc)
    have c: "\<forall>k<cursorX + 1. prefix_width p line k < x"
      using True "1.prems"(2,3) by (auto simp: less_Suc_eq)
    have eq: "click_loop p line x cursorX lineWidth =
              click_loop p line x (cursorX + 1) (lineWidth + textWidth p [line ! cursorX])"
      using True by (subst click_loop.simps) simp
    show ?thesis unfolding eq using "1.IH" [OF True a b c] .
  next
    case False
    have eq: "click_loop p line x cursorX lineWidth = cursorX"
      using False by (subst click_loop.simps) auto
    show ?thesis unfolding eq using False "1.prems" by auto
  qed
qed

text \<open>
  Claim C3, as the code has it. The target is the pointer x relative to the widget's
  left edge, minus the padding of 5. A click inside a text area (with a line and a
  positive line height) puts the cursor on a row of the lines, at the first column
  whose prefix width is at least the target, or at the end of the line when no prefix
  is that wide: every shorter prefix is narrower than the target. On the line \<open>hi\<close> with
  characters 10 pixels wide, pointer x = 5 gives column 0, x = 12 and x = 15 give
  column 1, and x = 16 gives column 2.
\<close>

theorem click_column:
  "(ta_x t < mouseX p \<and> mouseX p < ta_x t + ta_w t \<and>
    ta_y t < mouseY p \<and> mouseY p < ta_y t + ta_h t \<and>
    ta_lines t \<noteq> [] \<and> 0 < ta_lineHeight t \<longrightarrow>
    (\<exists>t'. TextArea_handleClick p t = Inr t' \<and>
       ta_cursorY t' < length (ta_lines t) \<and>
       ta_cursorX t' \<le> length (ta_lines t ! ta_cursorY t') \<and>
       (\<forall>k<ta_cursorX t'. prefix_width p (ta_lines t ! ta_cursorY t') k < mouseX p - ta_x t - 5) \<and>
       (ta_cursorX t' < length (ta_lines t ! ta_cursorY t') \<longrightarrow>
          mouseX p - ta_x t - 5 \<le> prefix_width p (ta_lines t ! ta_cursorY t') (ta_cursorX t')))) \<and>
   TextArea_handleClick (pointer_at 5 10) ex_area_hi =
     Inr (ex_area_hi\<lparr>ta_isFocused := True, ta_cursorX := 0\<rparr>) \<and>
   TextArea_handleClick (pointer_at 12 10) ex_area_hi =
     Inr (ex_area_hi\<lparr>ta_isFocused := True, ta_cursorX := 1\<rparr>) \<and>
   TextArea_handleClick (pointer_at 15 10) ex_area_hi =
     Inr (ex_area_hi\<lparr>ta_isFocused := True, ta_cursorX := 1\<rparr>) \<and>
   TextArea_handleClick (pointer_at 16 10) ex_area_hi =
     Inr (ex_area_hi\<lparr>ta_isFocused := True, ta_cursorX := 2\<rparr>)"
proof -
  have g: "\<exists>t'. TextArea_handleClick p t = Inr t' \<and>
       ta_cursorY t' < length (ta_lines t) \<and>
       ta_cursorX t' \<le> length (ta_lines t ! ta_cursorY t') \<and>
       (\<forall>k<ta_cursorX t'. prefix_width p (ta_lines t ! ta_cursorY t') k < mouseX p - ta_x t - 5) \<and>
       (ta_cursorX t' < length (ta_lines t ! ta_cursorY t') \<longrightarrow>
          mouseX p - ta_x t - 5 \<le> prefix_width p (ta_lines t ! ta_cursorY t') (ta_cursorX t'))"
    if h: "ta_x t < mouseX p" "mouseX p < ta_x t + ta_w t"
      "ta_y t < mouseY p" "mouseY p < ta_y t + ta_h t" and ne: "ta_lines t \<noteq> []"
  proof -
    let ?cy = "nat (constrain \<lfloor>(mouseY p - ta_y t + ta_scrollY t) / ta_lineHeight t\<rfloor>
                                0 (int (length (ta_lines t)) - 1))"
    have "0 \<le> length (ta_lines t ! ?cy)" by simp
    from click_loop_first_boundary [OF this, of 0 p "mouseX p - ta_x t - 5"]
    show ?thesis
      using handleClick_focused [OF h ne] click_row_less [OF ne]
      by (simp add: prefix_width_def)
  qed
  have c: "TextArea_handleClick (pointer_at 5 10) ex_area_hi =
             Inr (ex_area_hi\<lparr>ta_isFocused := True, ta_cursorX := 0\<rparr>)"
    "TextArea_handleClick (pointer_at 12 10) ex_area_hi =
             Inr (ex_area_hi\<lparr>ta_isFocused := True, ta_cursorX := 1\<rparr>)"
    "TextArea_handleClick (pointer_at 15 10) ex_area_hi =
             Inr (ex_area_hi\<lparr>ta_isFocused := True, ta_cursorX := 1\<rparr>)"
    "TextArea_handleClick (pointer_at 16 10) ex_area_hi =
             Inr (ex_area_hi\<lparr>ta_isFocused := True, ta_cursorX := 2\<rparr>)"
    by (simp_all add: ex_defs ex_area_hi_def run_defs click_loop.simps)
  from g c show ?thesis by blast
qed

text \<open>
  The general part at the line \<open>hi\<close> and pointer x = 12: the target is 7, the cursor
  column \<open>c\<close> has every shorter prefix narrower than 7 and, unless it is the end of the
  line, a prefix at least 7 wide.
\<close>

theorem click_column_witness:
  "(ta_x ex_area_hi < mouseX (pointer_at 12 10) \<and>
    mouseX (pointer_at 12 10) < ta_x ex_area_hi + ta_w ex_area_hi \<and>
    ta_y ex_area_hi < mouseY (pointer_at 12 10) \<and>
    mouseY (pointer_at 12 10) < ta_y ex_area_hi + ta_h ex_area_hi \<and>
    ta_lines ex_area_hi \<noteq> [] \<and> 0 < ta_lineHeight ex_area_hi) \<and>
   (\<exists>t'. TextArea_handleClick (pointer_at 12 10) ex_area_hi = Inr t' \<and>
       ta_cursorY t' < length (ta_lines ex_area_hi) \<and>
       ta_cursorX t' \<le> length (ta_lines ex_area_hi ! ta_cursorY t') \<and>
       (\<forall>k<ta_cursorX t'. prefix_width (pointer_at 12 10) (ta_lines ex_area_hi ! ta_cursorY t') k
            < mouseX (pointer_at 12 10) - ta_x ex_area_hi - 5) \<and>
       (ta_cursorX t' < length (ta_lines ex_area_hi ! ta_cursorY t') \<longrightarrow>
          mouseX (pointer_at 12 10) - ta_x ex_area_hi - 5
            \<le> prefix_width (pointer_at 12 10) (ta_lines ex_area_hi ! ta_cursorY t') (ta_cursorX t')))"
proof -
  have h: "ta_x ex_area_hi < mouseX (pointer_at 12 10) \<and>
    mouseX (pointer_at 12 10) < ta_x ex_area_hi + ta_w ex_area_hi \<and>
    ta_y ex_area_hi < mouseY (pointer_at 12 10) \<and>
    mouseY (pointer_at 12 10) < ta_y ex_area_hi + ta_h ex_area_hi \<and>
    ta_lines ex_area_hi \<noteq> [] \<and> 0 < ta_lineHeight ex_area_hi"
    by (simp add: ex_defs ex_area_hi_def)
  from h click_column [of ex_area_hi "pointer_at 12 10", THEN conjunct1, THEN mp, OF h]
  show ?thesis by (rule conjI)
qed

text \<open>
  Claim C3 as stated fails at both of its pointer positions: on the line \<open>hi\<close> with
  characters 10 pixels wide, a click at x = 12 gives column 1 (the claim says 0) and a
  click at x = 16 gives column 2 (the claim says 1).
\<close>

theorem click_column_hi:
  "TextArea_handleClick (pointer_at 12 10) ex_area_hi =
     Inr (ex_area_hi\<lparr>ta_isFocused := True, ta_cursorX := 1\<rparr>) \<and>
   TextArea_handleClick (pointer_at 16 10) ex_area_hi =
     Inr (ex_area_hi\<lparr>ta_isFocused := True, ta_cursorX := 2\<rparr>)"
  by (simp add: ex_defs ex_area_hi_def run_defs click_loop.simps)

section \<open>The cursor invariant over runs\<close>

lemma setText_valid:
  "ta_valid (TextArea_setText s t) \<and>
   ta_scrollY (TextArea_setText s t) = ta_scrollY t \<and>
   ta_lineHeight (TextArea_setText s t) = ta_lineHeight t"
  using split_nl_not_Nil [of s] by (simp add: TextArea_setText_def ta_valid_def Let_def)

lemma handleKeyPress_valid:
  assumes "ta_valid t"
  shows "\<exists>t' ns. TextArea_handleKeyPress p t = Inr (t', ns) \<and> ta_valid t' \<and>
                 ta_lineHeight t' = ta_lineHeight t"
proof (cases "ta_isFocused t")
  case False
  with assms show ?thesis by (simp add: TextArea_handleKeyPress_def)
next
  case True
  from key_edit_valid [OF assms] obtain t1 where
    e: "key_edit p t = Inr t1" and v: "ta_valid t1" and f: "same_frame t t1" by blast
  from v have "ta_valid ((scroll_update t1)\<lparr>ta_text := join_nl (ta_lines t1)\<rparr>)"
    by (simp add: ta_valid_def scroll_update_fields)
  with f handleKeyPress_focused [OF True e] show ?thesis
    by (simp add: same_frame_def scroll_update_fields)
qed

lemma ta_apply_valid:
  assumes "ta_valid t"
  shows "\<exists>t'. ta_apply e t = Inr t' \<and> ta_valid t' \<and> ta_lineHeight t' = ta_lineHeight t"
proof (cases e)
  case (KeyPress p)
  with handleKeyPress_valid [OF assms, of p] show ?thesis by auto
next
  case (Click p)
  with handleClick_valid [OF assms, of p] show ?thesis by auto
next
  case (SetText s)
  with setText_valid [of s t] show ?thesis by simp
qed

lemma TextArea_valid: "ta_valid (TextArea x y w h s) \<and> 0 < ta_lineHeight (TextArea x y w h s)"
  by (simp add: TextArea_def ta_valid_def)

text \<open>
  Claim C5. From a text area within the cursor invariant (and with a positive line
  height, as every constructed area has), every run of key presses, clicks and
  \<open>setText\<close> calls completes without a TypeError and ends in a state where \<open>lines\<close> is
  not empty, the cursor row is a row of \<open>lines\<close> and the cursor column is at most the
  length of that row. The key presses are arbitrary key events, so they cover character
  insertion, Enter, Backspace and the four arrows.
\<close>

theorem cursor_invariant_preserved:
  assumes "ta_valid t" and "0 < ta_lineHeight t"
  shows "\<exists>t'. ta_run es t = Inr t' \<and>
              ta_lines t' \<noteq> [] \<and> ta_cursorY t' < length (ta_lines t') \<and>
              ta_cursorX t' \<le> length (ta_lines t' ! ta_cursorY t') \<and>
              0 < ta_lineHeight t'"
  using assms
proof (induction es arbitrary: t)
  case Nil
  then show ?case by (simp add: ta_valid_def)
next
  case (Cons e es)
  from ta_apply_valid [OF Cons.prems(1), of e] obtain t1 where
    a: "ta_apply e t = Inr t1" and v: "ta_valid t1" and l: "ta_lineHeight t1 = ta_lineHeight t"
    by blast
  from Cons.IH [OF v] l Cons.prems(2) a show ?case by simp
qed

text \<open>
  The statement at the constructed area \<open>hi\<close> and a run of a click, Enter, a character,
  Backspace, the four arrows, a \<open>setText\<close> with a line break and another click.
\<close>

theorem cursor_invariant_preserved_witness:
  "ta_valid ex_area_hi \<and> 0 < ta_lineHeight ex_area_hi \<and>
   (\<exists>t'. ta_run [Click (pointer_at 50 10), KeyPress (key_event ENTER ''Enter''),
                 KeyPress (key_event 65 ''a''), KeyPress (key_event BACKSPACE ''Backspace''),
                 KeyPress (key_event UP_ARROW ''ArrowUp''),
                 KeyPress (key_event LEFT_ARROW ''ArrowLeft''),
                 KeyPress (key_event DOWN_ARROW ''ArrowDown''),
                 KeyPress (key_event RIGHT_ARROW ''ArrowRight''),
                 SetText (''x'' @ [newline] @ ''yz''), Click (pointer_at 20 30)] ex_area_hi = Inr t' \<and>
          ta_lines t' \<noteq> [] \<and> ta_cursorY t' < length (ta_lines t') \<and>
          ta_cursorX t' \<le> length (ta_lines t' ! ta_cursorY t') \<and>
          0 < ta_lineHeight t')"
proof -
  have v: "ta_valid ex_area_hi" and l: "0 < ta_lineHeight ex_area_hi"
    by (simp_all add: ex_area_hi_def TextArea_valid)
  from v l cursor_invariant_preserved [OF v l] show ?thesis by blast
qed

section \<open>The scroll offset\<close>

text \<open>
  The scroll update of \<open>handleKeyPress\<close>. A focused call on a text area within its
  cursor invariant adjusts the scroll offset for the new cursor row: to the top of the
  row when that is above the viewport, to the bottom of the row minus the height when
  that is below the viewport, and not at all otherwise; a scroll offset that was at
  least 0, with a line height that is at least 0, stays at least 0.
\<close>

lemma handleKeyPress_scroll:
  assumes "ta_valid t" and "ta_isFocused t"
  shows "\<exists>t' ns. TextArea_handleKeyPress p t = Inr (t', ns) \<and>
            ta_scrollY t' =
              (if real (ta_cursorY t') * ta_lineHeight t < ta_scrollY t
               then real (ta_cursorY t') * ta_lineHeight t
               else if (real (ta_cursorY t') + 1) * ta_lineHeight t > ta_scrollY t + ta_h t
               then (real (ta_cursorY t') + 1) * ta_lineHeight t - ta_h t
               else ta_scrollY t) \<and>
            (0 \<le> ta_scrollY t \<and> 0 \<le> ta_lineHeight t \<longrightarrow> 0 \<le> ta_scrollY t')"
proof -
  from key_edit_valid [OF assms(1)] obtain t1 where
    e: "key_edit p t = Inr t1" and f: "same_frame t t1" by blast
  show ?thesis
    using f handleKeyPress_focused [OF assms(2) e] scroll_update_nonneg [of t1]
    by (simp add: same_frame_def scroll_update_fields scroll_update_scrollY)
qed

text \<open>
  Claim C8. The claim has the scroll offset adjusted after a click as after a key, and
  \<open>handleKeyPress\<close> does adjust it after every key; \<open>handleClick\<close> moves the cursor
  and never assigns the scroll offset. On the constructed area 30 pixels high, a click
  at (50, 5) and Enter give two lines, the cursor on the second and a scroll offset of
  10. A second click at (50, 5) then puts the cursor on row 0, whose top (0) is above
  the viewport, and the scroll offset stays 10 where the claim makes it 0.
\<close>

theorem click_keeps_scroll_offset:
  "ta_run [Click (pointer_at 50 5), KeyPress (key_event ENTER ''Enter'')] ex_area_low =
     Inr ex_area_low_entered \<and>
   TextArea_handleClick (pointer_at 50 5) ex_area_low_entered =
     Inr (ex_area_low_entered\<lparr>ta_cursorY := 0\<rparr>) \<and>
   real (ta_cursorY (ex_area_low_entered\<lparr>ta_cursorY := 0\<rparr>)) * ta_lineHeight ex_area_low_entered
     < ta_scrollY (ex_area_low_entered\<lparr>ta_cursorY := 0\<rparr>) \<and>
   ta_scrollY (ex_area_low_entered\<lparr>ta_cursorY := 0\<rparr>) = 10"
  by (simp add: ex_defs ex_area_low_def ex_area_low_entered_def key_defs run_defs click_loop.simps)

text \<open>
  \<open>setText\<close> moves the cursor without a scroll update as well: after a click, three
  Enter keys and \<open>setText('x')\<close> on that area the only row has its top at 0 and the
  scroll offset is 50.
\<close>

lemma setText_keeps_scroll_offset:
  "ta_run [Click (pointer_at 50 5), KeyPress (key_event ENTER ''Enter''),
           KeyPress (key_event ENTER ''Enter''), KeyPress (key_event ENTER ''Enter''),
           SetText ''x''] ex_area_low =
     Inr (ex_area_low\<lparr>ta_text := ''x'', ta_lines := [''x''], ta_isFocused := True,
                      ta_cursorX := 1, ta_scrollY := 50\<rparr>)"
  by (simp add: ex_defs ex_area_low_def key_defs run_defs click_loop.simps newline_def)

section \<open>InputBox: focus\<close>

text \<open>
  Claim C9. An unfocused input box returns from \<open>handleKeyPress\<close> unchanged and fires
  no notification, whatever the key. On a focused input box the Enter key clears the
  focus and leaves the text as it is. A \<open>handleClick\<close> with the pointer not strictly
  inside the bounds of the box (so also one outside them) leaves the box unfocused.
\<close>

theorem inputbox_focus:
  "(\<not> ib_isFocused b \<longrightarrow> InputBox_handleKeyPress p b = (b, [])) \<and>
   (ib_isFocused b' \<and> keyCode p' = ENTER \<longrightarrow>
      \<not> ib_isFocused (fst (InputBox_handleKeyPress p' b')) \<and>
      ib_text (fst (InputBox_handleKeyPress p' b')) = ib_text b') \<and>
   (\<not> (ib_x b'' < mouseX q \<and> mouseX q < ib_x b'' + ib_w b'' \<and>
        ib_y b'' < mouseY q \<and> mouseY q < ib_y b'' + ib_h b'') \<longrightarrow>
      \<not> ib_isFocused (InputBox_handleClick q b''))"
  by (simp add: InputBox_handleKeyPress_def InputBox_handleClick_def Let_def key_codes_distinct)

text \<open>
  The statement at the box \<open>hi\<close> of 100 by 20 pixels: unfocused with the key \<open>a\<close>,
  focused with Enter, and focused with a click at (200, 10), right of the box.
\<close>

theorem inputbox_focus_witness:
  "\<not> ib_isFocused ex_box \<and>
   InputBox_handleKeyPress (key_event 65 ''a'') ex_box = (ex_box, []) \<and>
   ib_isFocused (InputBox_handleClick (pointer_at 50 10) ex_box) \<and>
   keyCode (key_event ENTER ''Enter'') = ENTER \<and>
   \<not> ib_isFocused (fst (InputBox_handleKeyPress (key_event ENTER ''Enter'')
                           (InputBox_handleClick (pointer_at 50 10) ex_box))) \<and>
   ib_text (fst (InputBox_handleKeyPress (key_event ENTER ''Enter'')
                           (InputBox_handleClick (pointer_at 50 10) ex_box))) = ''hi'' \<and>
   \<not> mouseX (pointer_at 200 10) < ib_x (InputBox_handleClick (pointer_at 50 10) ex_box)
                                  + ib_w (InputBox_handleClick (pointer_at 50 10) ex_box) \<and>
   \<not> ib_isFocused (InputBox_handleClick (pointer_at 200 10)
                      (InputBox_handleClick (pointer_at 50 10) ex_box))"
proof -
  have u: "\<not> ib_isFocused ex_box"
    by (simp add: ex_box_def InputBox_def)
  have f: "ib_isFocused (InputBox_handleClick (pointer_at 50 10) ex_box)"
    and t: "ib_text (InputBox_handleClick (pointer_at 50 10) ex_box) = ''hi''"
    and k: "keyCode (key_event ENTER ''Enter'') = ENTER"
    and o: "\<not> mouseX (pointer_at 200 10) < ib_x (InputBox_handleClick (pointer_at 50 10) ex_box)
                                  + ib_w (InputBox_handleClick (pointer_at 50 10) ex_box)"
    by (simp_all add: ex_box_def InputBox_def InputBox_handleClick_def ex_host_def
        pointer_at_def key_event_def)
  from inputbox_focus [of ex_box "key_event 65 ''a''"
      "InputBox_handleClick (pointer_at 50 10) ex_box" "key_event ENTER ''Enter''"
      "InputBox_handleClick (pointer_at 50 10) ex_box" "pointer_at 200 10"] u f t k o
  show ?thesis by simp
qed

section \<open>Slider: setValue\<close>

lemma round_nearest: "\<bar>of_int \<lfloor>x + 1 / 2\<rfloor> - x\<bar> \<le> \<bar>of_int m - (x::real)\<bar>"
proof -
  let ?n = "\<lfloor>x + 1 / 2\<rfloor>"
  have lo: "of_int ?n \<le> x + 1 / 2" and hi: "x + 1 / 2 < of_int ?n + 1"
    by linarith+
  consider "m \<le> ?n - 1" | "m = ?n" | "?n + 1 \<le> m" by linarith
  then show ?thesis
  proof cases
    case 1
    then have "(of_int m :: real) \<le> of_int (?n - 1)" by (simp only: of_int_le_iff)
    then have "(of_int m :: real) \<le> of_int ?n - 1" by simp
    with lo hi show ?thesis by linarith
  next
    case 2
    then show ?thesis by simp
  next
    case 3
    then have "(of_int (?n + 1) :: real) \<le> of_int m" by (simp only: of_int_le_iff)
    then have "(of_int ?n :: real) + 1 \<le> of_int m" by simp
    with lo hi show ?thesis by linarith
  qed
qed

lemma constrain_num_NaN: "constrain_num NaN low high = NaN"
  by (simp add: constrain_num_def Math_min_def Math_max_def)

lemma constrain_num_range:
  assumes "num_le low high" and "n \<noteq> NaN"
  shows "num_le low (constrain_num n low high) \<and> num_le (constrain_num n low high) high"
  using assms
  by (cases n; cases low; cases high)
     (auto simp: constrain_num_def Math_min_def Math_max_def num_le_def)

text \<open>
  Claim C10, as the code has it. On a slider whose minimum and maximum are numbers with
  \<open>min <= max\<close>, and for every arithmetic of the engine, \<open>setValue(v)\<close> first rounds:
  with \<open>isInteger\<close> to \<open>Math.round(v)\<close>, which for a finite \<open>v\<close> is an integer at
  least as near to \<open>v\<close> as any other; otherwise, with a step that is neither zero nor
  NaN, to the engine's product of \<open>Math.round\<close> of the engine's quotient \<open>v / step\<close> and
  the step; otherwise not at all. It stores the rounded value clamped by
  \<open>p.constrain\<close>, which \<open>getValue\<close> returns: NaN when the rounded value is NaN, and a
  number within \<open>[min, max]\<close> otherwise. The callback, when one is registered, is called
  exactly once, with the stored value; the other fields stay.
\<close>

theorem setValue_spec:
  assumes "num_le (sl_min s) (sl_max s)"
  shows "\<exists>s' v1. Slider_setValue ar v s =
                  (s', if sl_onChange s then [Slider_getValue s'] else []) \<and>
     s' = s\<lparr>sl_value := Slider_getValue s'\<rparr> \<and>
     v1 = (if sl_isInteger s then Math_round v
           else if truthy (sl_step s)
           then fmul ar (Math_round (fdiv ar v (sl_step s))) (sl_step s)
           else v) \<and>
     Slider_getValue s' = constrain_num v1 (sl_min s) (sl_max s) \<and>
     (if v1 = NaN then Slider_getValue s' = NaN
      else num_le (sl_min s) (Slider_getValue s') \<and> num_le (Slider_getValue s') (sl_max s)) \<and>
     (\<forall>x. sl_isInteger s \<and> v = Fin x \<longrightarrow>
        (\<exists>n::int. v1 = Fin (of_int n) \<and> (\<forall>m::int. \<bar>of_int n - x\<bar> \<le> \<bar>of_int m - x\<bar>)))"
proof -
  define v1 where "v1 = (if sl_isInteger s then Math_round v
           else if truthy (sl_step s)
           then fmul ar (Math_round (fdiv ar v (sl_step s))) (sl_step s)
           else v)"
  define s' where "s' = s\<lparr>sl_value := constrain_num v1 (sl_min s) (sl_max s)\<rparr>"
  have a: "Slider_setValue ar v s = (s', if sl_onChange s then [Slider_getValue s'] else [])"
    by (simp add: Slider_setValue_def Let_def notify_def v1_def s'_def Slider_getValue_def)
  have g: "Slider_getValue s' = constrain_num v1 (sl_min s) (sl_max s)"
    by (simp add: s'_def Slider_getValue_def)
  have b: "s' = s\<lparr>sl_value := Slider_getValue s'\<rparr>"
    by (simp add: s'_def Slider_getValue_def)
  have r: "if v1 = NaN then Slider_getValue s' = NaN
      else num_le (sl_min s) (Slider_getValue s') \<and> num_le (Slider_getValue s') (sl_max s)"
    using constrain_num_range [OF assms, of v1] by (simp add: g constrain_num_NaN)
  have i: "\<forall>x. sl_isInteger s \<and> v = Fin x \<longrightarrow>
        (\<exists>n::int. v1 = Fin (of_int n) \<and> (\<forall>m::int. \<bar>of_int n - x\<bar> \<le> \<bar>of_int m - x\<bar>))"
    using round_nearest by (auto simp: v1_def)
  from a b g r i v1_def show ?thesis by blast
qed

text \<open>
  The statement at the slider from 0 to 10 with step 0.5, a callback and the value
  3.25: the stored value is 3.5 and the callback is called once with it. On the slider
  from 0 to 10 with \<open>isInteger\<close>, the value 3.25 is stored as 3 and the value 12 as 10.
\<close>

theorem setValue_spec_witness:
  "num_le (sl_min (Slider_setOnChange True ex_slider)) (sl_max (Slider_setOnChange True ex_slider)) \<and>
   (\<exists>s'. Slider_setValue binary64_sample (Fin (13 / 4)) (Slider_setOnChange True ex_slider) =
            (s', [Fin (7 / 2)]) \<and>
         Slider_getValue s' = Fin (7 / 2)) \<and>
   num_le (sl_min ex_slider_int) (sl_max ex_slider_int) \<and>
   (\<exists>s'. Slider_setValue binary64_sample (Fin (13 / 4)) ex_slider_int = (s', []) \<and>
         Slider_getValue s' = Fin 3) \<and>
   (\<exists>s'. Slider_setValue binary64_sample (Fin 12) ex_slider_int = (s', []) \<and>
         Slider_getValue s' = Fin 10)"
proof -
  have m: "num_le (sl_min (Slider_setOnChange True ex_slider))
                  (sl_max (Slider_setOnChange True ex_slider))"
    "num_le (sl_min ex_slider_int) (sl_max ex_slider_int)"
    by (simp_all add: ex_slider_def ex_slider_int_def Slider_def Slider_setOnChange_def num_le_def)
  from setValue_spec [OF m(1), of binary64_sample "Fin (13 / 4)"]
    setValue_spec [OF m(2), of binary64_sample "Fin (13 / 4)"]
    setValue_spec [OF m(2), of binary64_sample "Fin 12"] m
  show ?thesis
    by (auto simp: ex_slider_def ex_slider_int_def Slider_def Slider_setOnChange_def
        binary64_sample_def d035_def d01_def constrain_num_def Math_min_def Math_max_def)
qed

text \<open>
  Claim C10 as stated fails in three ways. On the slider from 0 to 10 with \<open>isInteger\<close>,
  \<open>setValue(NaN)\<close> stores NaN, which is not within the bounds. On the slider constructed
  with the minimum 10 above the maximum 0, \<open>setValue(5)\<close> stores 10, which is above the
  maximum. On the slider from 0 to 1 with step 0.1, \<open>setValue(0.35)\<close> stores
  0.30000000000000004, which lies strictly between 3 times and 4 times the step, so it
  is not a multiple of the step.
\<close>

theorem setValue_not_in_range:
  "sl_min ex_slider_int = Fin 0 \<and> sl_max ex_slider_int = Fin 10 \<and>
   Slider_getValue (fst (Slider_setValue binary64_sample NaN ex_slider_int)) = NaN \<and>
   \<not> num_le (sl_min ex_slider_int) NaN \<and> \<not> num_le NaN (sl_max ex_slider_int) \<and>
   sl_min ex_slider_reversed = Fin 10 \<and> sl_max ex_slider_reversed = Fin 0 \<and>
   Slider_getValue (fst (Slider_setValue binary64_sample (Fin 5) ex_slider_reversed)) = Fin 10 \<and>
   \<not> num_le (Fin 10) (sl_max ex_slider_reversed) \<and>
   sl_step ex_slider_tenths = Fin d01 \<and>
   Slider_getValue (fst (Slider_setValue binary64_sample (Fin d035) ex_slider_tenths)) =
     Fin (1351079888211149 / 4503599627370496) \<and>
   3 * d01 < 1351079888211149 / 4503599627370496 \<and>
   1351079888211149 / 4503599627370496 < 4 * d01"
  by (simp add: ex_slider_int_def ex_slider_reversed_def ex_slider_tenths_def Slider_def
      Slider_setValue_def Slider_getValue_def Let_def notify_def binary64_sample_def
      d035_def d01_def constrain_num_def Math_min_def Math_max_def num_le_def)

end
